theory Spec2Isabelle
  imports Complex_Main "HOL-Library.AList" "HOL-Library.Sublist"
begin

unbundle bit_operations_syntax

section \<open>Gas-turbine anomaly detection: the script \<open>src/anomoly_detection.py\<close>\<close>

text \<open>
  The script is a straight-line batch program over one pandas DataFrame. It is embedded
  from line 50 on (the cleaned and renamed frame is the input), as six stages that follow
  the script's comment banners: column choice, Z-score flag, Isolation-Forest flag,
  regression-residual flag, combined flag, CSV report.

  Idealisation of floating point: a finite float is a \<^typ>\<open>real\<close> (no rounding, no
  overflow). The special values that the script's arithmetic can produce from finite
  data (NaN from an empty or one-element standard deviation, NaN or an infinity from a
  division by zero) are kept as constructors of \<open>fval\<close>, with the IEEE rules for them.
\<close>

subsection \<open>Errors\<close>

datatype error =
    ValueError string
  | KeyError string
  | TypeError string

subsection \<open>Floats with the IEEE special values\<close>

datatype fval = Fin real | PInf | NInf | NaN

fun fsub :: "fval \<Rightarrow> fval \<Rightarrow> fval" where
  "fsub NaN _ = NaN"
| "fsub _ NaN = NaN"
| "fsub (Fin a) (Fin b) = Fin (a - b)"
| "fsub (Fin a) PInf = NInf"
| "fsub (Fin a) NInf = PInf"
| "fsub PInf PInf = NaN"
| "fsub PInf _ = PInf"
| "fsub NInf NInf = NaN"
| "fsub NInf _ = NInf"

fun fdiv :: "fval \<Rightarrow> fval \<Rightarrow> fval" where
  "fdiv NaN _ = NaN"
| "fdiv _ NaN = NaN"
| "fdiv (Fin a) (Fin b) =
     (if b \<noteq> 0 then Fin (a / b)
      else if a = 0 then NaN
      else if 0 < a then PInf else NInf)"
| "fdiv (Fin a) _ = Fin 0"
| "fdiv PInf (Fin b) = (if 0 \<le> b then PInf else NInf)"
| "fdiv NInf (Fin b) = (if 0 \<le> b then NInf else PInf)"
| "fdiv _ _ = NaN"

fun fmul :: "fval \<Rightarrow> fval \<Rightarrow> fval" where
  "fmul NaN _ = NaN"
| "fmul _ NaN = NaN"
| "fmul (Fin a) (Fin b) = Fin (a * b)"
| "fmul (Fin a) PInf = (if a = 0 then NaN else if 0 < a then PInf else NInf)"
| "fmul (Fin a) NInf = (if a = 0 then NaN else if 0 < a then NInf else PInf)"
| "fmul PInf (Fin b) = (if b = 0 then NaN else if 0 < b then PInf else NInf)"
| "fmul NInf (Fin b) = (if b = 0 then NaN else if 0 < b then NInf else PInf)"
| "fmul PInf PInf = PInf"
| "fmul NInf NInf = PInf"
| "fmul PInf NInf = NInf"
| "fmul NInf PInf = NInf"

fun fabs :: "fval \<Rightarrow> fval" where
  "fabs (Fin a) = Fin \<bar>a\<bar>"
| "fabs PInf = PInf"
| "fabs NInf = PInf"
| "fabs NaN = NaN"

text \<open>\<open>fgt a b\<close> is the comparison \<open>a > b\<close>: false whenever a NaN is involved.\<close>

fun fgt :: "fval \<Rightarrow> fval \<Rightarrow> bool" where
  "fgt NaN _ = False"
| "fgt _ NaN = False"
| "fgt (Fin a) (Fin b) = (b < a)"
| "fgt (Fin a) PInf = False"
| "fgt (Fin a) NInf = True"
| "fgt PInf PInf = False"
| "fgt PInf _ = True"
| "fgt NInf _ = False"

subsection \<open>Series statistics (pandas)\<close>

text \<open>\<open>Series.mean()\<close>: NaN on an empty series.\<close>

definition mean :: "real list \<Rightarrow> fval" where
  "mean x = (if x = [] then NaN else Fin (sum_list x / real (length x)))"

text \<open>
  \<open>Series.std()\<close> with the pandas default \<open>ddof=1\<close>: the sum of squared deviations
  is divided by \<open>n - 1\<close>; NaN when the series has fewer than two values.
\<close>

definition std :: "real list \<Rightarrow> fval" where
  "std x =
     (if length x \<le> 1 then NaN
      else Fin (sqrt (sum_list (map (\<lambda>v. (v - sum_list x / real (length x))\<^sup>2) x)
                       / real (length x - 1))))"

subsection \<open>The DataFrame\<close>

datatype column = FloatCol "real list" | IntCol "int list"

record dataframe =
  index_len :: nat
  cols :: "(string \<times> column) list"

definition columns :: "dataframe \<Rightarrow> string list" where
  "columns d = map fst (cols d)"

fun col_len :: "column \<Rightarrow> nat" where
  "col_len (FloatCol xs) = length xs"
| "col_len (IntCol xs) = length xs"

text \<open>A numeric read of a column: an integer column is read as its float values.\<close>

fun as_float :: "column \<Rightarrow> real list" where
  "as_float (FloatCol xs) = xs"
| "as_float (IntCol xs) = map real_of_int xs"

text \<open>
  A frame is well formed when its column names are distinct and every column has one
  value per index entry. (pandas keeps the lengths equal by construction; a frame with a
  repeated column name is outside the model.)
\<close>

definition wf_df :: "dataframe \<Rightarrow> bool" where
  "wf_df d \<longleftrightarrow>
     distinct (columns d) \<and> list_all (\<lambda>p. col_len (snd p) = index_len d) (cols d)"

text \<open>\<open>df[name]\<close>: KeyError when the column is missing.\<close>

definition getitem :: "dataframe \<Rightarrow> string \<Rightarrow> error + column" where
  "getitem d c = (case map_of (cols d) c of None \<Rightarrow> Inl (KeyError c) | Some v \<Rightarrow> Inr v)"

text \<open>\<open>df[[names]]\<close> read as a numeric matrix, one list per selected column.\<close>

fun select_cols :: "dataframe \<Rightarrow> string list \<Rightarrow> error + real list list" where
  "select_cols d [] = Inr []"
| "select_cols d (c # cs) =
     (case getitem d c of
        Inl e \<Rightarrow> Inl e
      | Inr v \<Rightarrow>
          (case select_cols d cs of
             Inl e \<Rightarrow> Inl e
           | Inr m \<Rightarrow> Inr (as_float v # m)))"

text \<open>\<open>df[[names]]\<close> as a frame (the report's column selection).\<close>

fun select_frame :: "dataframe \<Rightarrow> string list \<Rightarrow> error + (string \<times> column) list" where
  "select_frame d [] = Inr []"
| "select_frame d (c # cs) =
     (case getitem d c of
        Inl e \<Rightarrow> Inl e
      | Inr v \<Rightarrow>
          (case select_frame d cs of
             Inl e \<Rightarrow> Inl e
           | Inr m \<Rightarrow> Inr ((c, v) # m)))"

text \<open>
  \<open>df[name] = series\<close>, the series carrying the frame's own index: an existing column is
  replaced in place, a new one is appended as the last column.
\<close>

definition setitem :: "string \<Rightarrow> column \<Rightarrow> dataframe \<Rightarrow> dataframe" where
  "setitem c v d = d\<lparr>cols := AList.update c v (cols d)\<rparr>"

text \<open>\<open>df[name] = array\<close> for a plain array: pandas raises when the lengths differ.\<close>

definition setitem_array :: "string \<Rightarrow> column \<Rightarrow> dataframe \<Rightarrow> error + dataframe" where
  "setitem_array c v d =
     (if col_len v \<noteq> index_len d
      then Inl (ValueError ''Length of values does not match length of index'')
      else Inr (setitem c v d))"

text \<open>An integer column read for the bitwise operators.\<close>

definition get_int :: "dataframe \<Rightarrow> string \<Rightarrow> error + int list" where
  "get_int d c =
     (case getitem d c of
        Inl e \<Rightarrow> Inl e
      | Inr (IntCol xs) \<Rightarrow> Inr xs
      | Inr (FloatCol xs) \<Rightarrow> Inl (TypeError ''unsupported operand type(s) for |''))"

subsection \<open>The external estimators\<close>

text \<open>
  \<open>StandardScaler\<close>, \<open>IsolationForest\<close> and \<open>LinearRegression\<close> are library code, not
  code of this repository: the pipeline takes them as parameters. Each call may raise.
  A matrix is passed as the list of its feature columns. \<open>iso_fit\<close> also receives the
  ambient entropy of the process (what an unseeded generator would draw from).
\<close>

record iso_params =
  contamination :: real
  random_state :: "nat option"
  n_estimators :: nat

record ('m, 'r) sklearn =
  scaler_fit_transform :: "real list list \<Rightarrow> error + real list list"
  iso_fit :: "iso_params \<Rightarrow> nat \<Rightarrow> real list list \<Rightarrow> error + 'm"
  iso_predict :: "'m \<Rightarrow> real list list \<Rightarrow> error + int list"
  reg_fit :: "real list list \<Rightarrow> real list \<Rightarrow> error + 'r"
  reg_predict :: "'r \<Rightarrow> real list list \<Rightarrow> error + real list"

subsection \<open>The state of a run\<close>

record run_state =
  df :: dataframe
  key_cols :: "string list"
  three_sigma :: "fval option"
  report :: "(string \<times> column) list option"

definition init_state :: "dataframe \<Rightarrow> run_state" where
  "init_state d = \<lparr>df = d, key_cols = [], three_sigma = None, report = None\<rparr>"

subsection \<open>Lines 50-56: choose the sensor columns that exist\<close>

definition candidate_cols :: "string list" where
  "candidate_cols = [''TIT'', ''TAT'', ''TEY'', ''CDP'', ''CO'', ''NOx'']"

fun join :: "string \<Rightarrow> string list \<Rightarrow> string" where
  "join sep [] = []"
| "join sep [s] = s"
| "join sep (s # t # ss) = s @ sep @ join sep (t # ss)"

text \<open>Python's rendering of a list of plain strings: \<open>['a', 'b']\<close>.\<close>

definition py_repr_list :: "string list \<Rightarrow> string" where
  "py_repr_list ss = ''['' @ join '', '' (map (\<lambda>s. [CHR 0x27] @ s @ [CHR 0x27]) ss) @ '']''"

text \<open>The message of line 53-56; its first three bytes are the UTF-8 cross mark.\<close>

definition no_sensor_msg :: "string list \<Rightarrow> string" where
  "no_sensor_msg available =
     [CHR 0xE2, CHR 0x9D, CHR 0x8C] @ '' None of the expected sensor columns found.''
     @ [CHR 0x0A] @ ''Available columns are: '' @ py_repr_list available"

text \<open>The comprehension of line 51.\<close>

definition key_cols_of :: "dataframe \<Rightarrow> string list" where
  "key_cols_of d = filter (\<lambda>c. c \<in> set (columns d)) candidate_cols"

definition resolve_stage :: "run_state \<Rightarrow> error + run_state" where
  "resolve_stage st =
     (let kc = key_cols_of (df st)
      in if kc = [] then Inl (ValueError (no_sensor_msg (columns (df st))))
         else Inr (st\<lparr>key_cols := kc\<rparr>))"

subsection \<open>Lines 61-63: Z-score flag\<close>

definition z_thresh :: real where
  "z_thresh = 3"

text \<open>The lambda of line 62, applied to one column.\<close>

definition z_score_col :: "real list \<Rightarrow> fval list" where
  "z_score_col x = map (\<lambda>v. fdiv (fsub (Fin v) (mean x)) (std x)) x"

definition z_scores :: "dataframe \<Rightarrow> string list \<Rightarrow> error + fval list list" where
  "z_scores d kc =
     (case select_cols d kc of Inl e \<Rightarrow> Inl e | Inr m \<Rightarrow> Inr (map z_score_col m))"

text \<open>\<open>.any(axis=1)\<close> over a boolean frame given by its columns: one value per index entry.\<close>

definition any_axis1 :: "nat \<Rightarrow> bool list list \<Rightarrow> bool list" where
  "any_axis1 n bs = map (\<lambda>k. list_ex (\<lambda>b. k < length b \<and> b ! k) bs) [0..<n]"

definition exceeds :: "fval \<Rightarrow> bool" where
  "exceeds z = fgt (fabs z) (Fin z_thresh)"

definition z_flag_of :: "nat \<Rightarrow> fval list list \<Rightarrow> int list" where
  "z_flag_of n zs = map of_bool (any_axis1 n (map (map exceeds) zs))"

definition zscore_stage :: "run_state \<Rightarrow> error + run_state" where
  "zscore_stage st =
     (case z_scores (df st) (key_cols st) of
        Inl e \<Rightarrow> Inl e
      | Inr zs \<Rightarrow>
          Inr (st\<lparr>df := setitem ''z_flag'' (IntCol (z_flag_of (index_len (df st)) zs)) (df st)\<rparr>))"

subsection \<open>Lines 68-72: Isolation-Forest flag\<close>

definition iso :: iso_params where
  "iso = \<lparr>contamination = 2 / 100, random_state = Some 42, n_estimators = 200\<rparr>"

text \<open>
  Line 71 fits the forest on the scaled matrix; line 72 calls \<open>predict\<close> on
  \<open>df[key_cols]\<close> itself.
\<close>

definition iso_stage :: "('m, 'r) sklearn \<Rightarrow> nat \<Rightarrow> run_state \<Rightarrow> error + run_state" where
  "iso_stage env g st =
     (case select_cols (df st) (key_cols st) of
        Inl e \<Rightarrow> Inl e
      | Inr X \<Rightarrow>
     (case scaler_fit_transform env X of
        Inl e \<Rightarrow> Inl e
      | Inr Xs \<Rightarrow>
     (case iso_fit env iso g Xs of
        Inl e \<Rightarrow> Inl e
      | Inr m \<Rightarrow>
     (case iso_predict env m X of
        Inl e \<Rightarrow> Inl e
      | Inr labels \<Rightarrow>
     (case setitem_array ''iso_flag''
             (IntCol (map (\<lambda>l. of_bool (l = - 1)) labels)) (df st) of
        Inl e \<Rightarrow> Inl e
      | Inr d \<Rightarrow> Inr (st\<lparr>df := d\<rparr>))))))"

subsection \<open>Lines 77-90: regression-residual flag\<close>

definition residual_msg :: string where
  "residual_msg = ''Need TEY plus at least two of AT, AP, RH, CDP for the residual model. Check your CSV columns.''"

definition reg_inputs :: "dataframe \<Rightarrow> string list" where
  "reg_inputs d = filter (\<lambda>c. c \<in> set (columns d)) [''AT'', ''AP'', ''RH'', ''CDP'']"

definition res_flag_of :: "fval \<Rightarrow> real list \<Rightarrow> int list" where
  "res_flag_of ts r = map (\<lambda>v. of_bool (fgt (fabs (Fin v)) ts)) r"

definition residual_stage :: "('m, 'r) sklearn \<Rightarrow> run_state \<Rightarrow> error + run_state" where
  "residual_stage env st =
     (if length (reg_inputs (df st)) < 2 \<or> ''TEY'' \<notin> set (columns (df st))
      then Inl (ValueError residual_msg)
      else
     (case select_cols (df st) (reg_inputs (df st)) of
        Inl e \<Rightarrow> Inl e
      | Inr X \<Rightarrow>
     (case getitem (df st) ''TEY'' of
        Inl e \<Rightarrow> Inl e
      | Inr y \<Rightarrow>
     (case reg_fit env X (as_float y) of
        Inl e \<Rightarrow> Inl e
      | Inr reg \<Rightarrow>
     (case reg_predict env reg X of
        Inl e \<Rightarrow> Inl e
      | Inr pred \<Rightarrow>
     (case setitem_array ''TEY_pred'' (FloatCol pred) (df st) of
        Inl e \<Rightarrow> Inl e
      | Inr d1 \<Rightarrow>
     (case getitem d1 ''TEY'' of
        Inl e \<Rightarrow> Inl e
      | Inr tey \<Rightarrow>
     (case getitem d1 ''TEY_pred'' of
        Inl e \<Rightarrow> Inl e
      | Inr tp \<Rightarrow>
          (let residual_std = map2 (-) (as_float tey) (as_float tp);
               ts = fmul (Fin 3) (std residual_std);
               d2 = setitem ''residual'' (FloatCol residual_std) d1
           in (case getitem d2 ''residual'' of
                 Inl e \<Rightarrow> Inl e
               | Inr r \<Rightarrow>
                   Inr (st\<lparr>df := setitem ''res_flag'' (IntCol (res_flag_of ts (as_float r))) d2,
                           three_sigma := Some ts\<rparr>)))))))))))"

subsection \<open>Lines 95-97: combined flag\<close>

definition combine_stage :: "run_state \<Rightarrow> error + run_state" where
  "combine_stage st =
     (case get_int (df st) ''z_flag'' of
        Inl e \<Rightarrow> Inl e
      | Inr z \<Rightarrow>
     (case get_int (df st) ''iso_flag'' of
        Inl e \<Rightarrow> Inl e
      | Inr i \<Rightarrow>
     (case get_int (df st) ''res_flag'' of
        Inl e \<Rightarrow> Inl e
      | Inr r \<Rightarrow>
          Inr (st\<lparr>df := setitem ''anomaly''
                 (IntCol (map2 (OR) (map2 (OR) z i) r)) (df st)\<rparr>))))"

subsection \<open>Lines 102-107: the CSV report\<close>

definition report_cols :: "string list \<Rightarrow> string list" where
  "report_cols kc =
     [''anomaly'', ''z_flag'', ''iso_flag'', ''res_flag''] @ kc @ [''TEY_pred'', ''residual'']"

definition report_stage :: "run_state \<Rightarrow> error + run_state" where
  "report_stage st =
     (case select_frame (df st) (report_cols (key_cols st)) of
        Inl e \<Rightarrow> Inl e
      | Inr r \<Rightarrow> Inr (st\<lparr>report := Some r\<rparr>))"

subsection \<open>The run\<close>

text \<open>
  The statements run in order; an exception ends the run and leaves the state as it was
  when the failing stage began: within a stage every call that can fail comes before the
  first assignment to the frame, and the reads that follow an assignment are of columns
  just assigned or read before.
\<close>

datatype outcome = Finished run_state | Raised error run_state

fun run_stages :: "(run_state \<Rightarrow> error + run_state) list \<Rightarrow> run_state \<Rightarrow> outcome" where
  "run_stages [] st = Finished st"
| "run_stages (f # fs) st =
     (case f st of Inl e \<Rightarrow> Raised e st | Inr st' \<Rightarrow> run_stages fs st')"

definition pipeline :: "('m, 'r) sklearn \<Rightarrow> nat \<Rightarrow> dataframe \<Rightarrow> outcome" where
  "pipeline env g d =
     run_stages
       [resolve_stage, zscore_stage, iso_stage env g, residual_stage env,
        combine_stage, report_stage]
       (init_state d)"

subsection \<open>Stand-ins for the library estimators\<close>

text \<open>
  The theorems below hold for every estimator. To run the pipeline on a concrete frame
  some estimator is needed; these small ones are used:
  \<^item> the scaler is the textbook standardisation (population deviation, a zero scale
    replaced by 1), refusing an empty matrix;
  \<^item> the outlier model stores, per feature, the range of the training values (widened
    by a margin drawn from its generator) and labels a row \<open>-1\<close> when some feature leaves
    its range; the generator is the seed when one is given, the ambient entropy otherwise;
  \<^item> the regressor is the least-squares constant: it predicts the mean of the target.
\<close>

definition standardize_col :: "real list \<Rightarrow> real list" where
  "standardize_col x =
     (let mu = sum_list x / real (length x);
          s = sqrt (sum_list (map (\<lambda>v. (v - mu)\<^sup>2) x) / real (length x));
          s' = (if s = 0 then 1 else s)
      in map (\<lambda>v. (v - mu) / s') x)"

definition stub_scaler :: "real list list \<Rightarrow> error + real list list" where
  "stub_scaler X =
     (if X = [] \<or> list_ex (\<lambda>x. x = []) X
      then Inl (ValueError ''Found array with 0 sample(s)'')
      else Inr (map standardize_col X))"

fun col_range :: "real \<Rightarrow> real list \<Rightarrow> real \<times> real" where
  "col_range w [] = (0, 0)"
| "col_range w (v # vs) = (fold min vs v - w, fold max vs v + w)"

definition range_fit :: "iso_params \<Rightarrow> nat \<Rightarrow> real list list \<Rightarrow> error + (real \<times> real) list" where
  "range_fit p g X =
     (let r = (case random_state p of Some s \<Rightarrow> s | None \<Rightarrow> g)
      in Inr (map (col_range (real (r mod 2))) X))"

definition range_predict :: "(real \<times> real) list \<Rightarrow> real list list \<Rightarrow> error + int list" where
  "range_predict m X =
     Inr (map (\<lambda>k. if list_ex (\<lambda>(r, x). k < length x \<and> (x ! k < fst r \<or> snd r < x ! k)) (zip m X)
                    then - 1 else 1)
            [0..<(case X of [] \<Rightarrow> 0 | x # _ \<Rightarrow> length x)])"

definition mean_fit :: "real list list \<Rightarrow> real list \<Rightarrow> error + real" where
  "mean_fit X y =
     (if y = [] then Inl (ValueError ''Found array with 0 sample(s)'')
      else Inr (sum_list y / real (length y)))"

definition mean_predict :: "real \<Rightarrow> real list list \<Rightarrow> error + real list" where
  "mean_predict c X = Inr (replicate (case X of [] \<Rightarrow> 0 | x # _ \<Rightarrow> length x) c)"

definition stub_env :: "((real \<times> real) list, real) sklearn" where
  "stub_env =
     \<lparr>scaler_fit_transform = stub_scaler, iso_fit = range_fit, iso_predict = range_predict,
      reg_fit = mean_fit, reg_predict = mean_predict\<rparr>"

subsection \<open>Concrete frames\<close>

text \<open>Two records with the sensors \<open>TIT\<close>, \<open>TEY\<close>, \<open>AT\<close> and \<open>AP\<close>.\<close>

definition ex_df :: dataframe where
  "ex_df =
     \<lparr>index_len = 2,
      cols = [(''TIT'', FloatCol [1000, 1002]), (''TEY'', FloatCol [130, 132]),
              (''AT'', FloatCol [20, 22]), (''AP'', FloatCol [1010, 1012])]\<rparr>"

text \<open>The same, with a constant \<open>TEY\<close>.\<close>

definition ex_const :: dataframe where
  "ex_const =
     \<lparr>index_len = 2,
      cols = [(''TIT'', FloatCol [1000, 1002]), (''TEY'', FloatCol [130, 130]),
              (''AT'', FloatCol [20, 22]), (''AP'', FloatCol [1010, 1012])]\<rparr>"

text \<open>A single record.\<close>

definition ex_one :: dataframe where
  "ex_one =
     \<lparr>index_len = 1,
      cols = [(''TIT'', FloatCol [1000]), (''TEY'', FloatCol [130]),
              (''AT'', FloatCol [20]), (''AP'', FloatCol [1010])]\<rparr>"

text \<open>Sensors, but neither the target \<open>TEY\<close> nor two predictors.\<close>

definition ex_no_target :: dataframe where
  "ex_no_target = \<lparr>index_len = 2, cols = [(''TIT'', FloatCol [1000, 1002])]\<rparr>"

text \<open>None of the candidate sensor columns.\<close>

definition ex_no_sensor :: dataframe where
  "ex_no_sensor =
     \<lparr>index_len = 2, cols = [(''AT'', FloatCol [20, 22]), (''AP'', FloatCol [1010, 1012])]\<rparr>"







text \<open>The states in which the runs on these frames end (with the stand-in estimators).\<close>

definition ex_final :: run_state where
  "ex_final =
     \<lparr>df = \<lparr>index_len = 2,
             cols = [(''TIT'', FloatCol [1000, 1002]), (''TEY'', FloatCol [130, 132]),
                     (''AT'', FloatCol [20, 22]), (''AP'', FloatCol [1010, 1012]),
                     (''z_flag'', IntCol [0, 0]), (''iso_flag'', IntCol [1, 1]),
                     (''TEY_pred'', FloatCol [131, 131]), (''residual'', FloatCol [- 1, 1]),
                     (''res_flag'', IntCol [0, 0]), (''anomaly'', IntCol [1, 1])]\<rparr>,
      key_cols = [''TIT'', ''TEY''],
      three_sigma = Some (Fin (3 * sqrt 2)),
      report = Some [(''anomaly'', IntCol [1, 1]), (''z_flag'', IntCol [0, 0]),
                     (''iso_flag'', IntCol [1, 1]), (''res_flag'', IntCol [0, 0]),
                     (''TIT'', FloatCol [1000, 1002]), (''TEY'', FloatCol [130, 132]),
                     (''TEY_pred'', FloatCol [131, 131]), (''residual'', FloatCol [- 1, 1])]\<rparr>"

definition ex_const_final :: run_state where
  "ex_const_final =
     \<lparr>df = \<lparr>index_len = 2,
             cols = [(''TIT'', FloatCol [1000, 1002]), (''TEY'', FloatCol [130, 130]),
                     (''AT'', FloatCol [20, 22]), (''AP'', FloatCol [1010, 1012]),
                     (''z_flag'', IntCol [0, 0]), (''iso_flag'', IntCol [1, 1]),
                     (''TEY_pred'', FloatCol [130, 130]), (''residual'', FloatCol [0, 0]),
                     (''res_flag'', IntCol [0, 0]), (''anomaly'', IntCol [1, 1])]\<rparr>,
      key_cols = [''TIT'', ''TEY''],
      three_sigma = Some (Fin 0),
      report = Some [(''anomaly'', IntCol [1, 1]), (''z_flag'', IntCol [0, 0]),
                     (''iso_flag'', IntCol [1, 1]), (''res_flag'', IntCol [0, 0]),
                     (''TIT'', FloatCol [1000, 1002]), (''TEY'', FloatCol [130, 130]),
                     (''TEY_pred'', FloatCol [130, 130]), (''residual'', FloatCol [0, 0])]\<rparr>"

definition ex_one_final :: run_state where
  "ex_one_final =
     \<lparr>df = \<lparr>index_len = 1,
             cols = [(''TIT'', FloatCol [1000]), (''TEY'', FloatCol [130]),
                     (''AT'', FloatCol [20]), (''AP'', FloatCol [1010]),
                     (''z_flag'', IntCol [0]), (''iso_flag'', IntCol [1]),
                     (''TEY_pred'', FloatCol [130]), (''residual'', FloatCol [0]),
                     (''res_flag'', IntCol [0]), (''anomaly'', IntCol [1])]\<rparr>,
      key_cols = [''TIT'', ''TEY''],
      three_sigma = Some NaN,
      report = Some [(''anomaly'', IntCol [1]), (''z_flag'', IntCol [0]),
                     (''iso_flag'', IntCol [1]), (''res_flag'', IntCol [0]),
                     (''TIT'', FloatCol [1000]), (''TEY'', FloatCol [130]),
                     (''TEY_pred'', FloatCol [130]), (''residual'', FloatCol [0])]\<rparr>"

definition ex_no_target_raised :: run_state where
  "ex_no_target_raised =
     \<lparr>df = \<lparr>index_len = 2,
             cols = [(''TIT'', FloatCol [1000, 1002]), (''z_flag'', IntCol [0, 0]),
                     (''iso_flag'', IntCol [1, 1])]\<rparr>,
      key_cols = [''TIT''], three_sigma = None, report = None\<rparr>"

subsection \<open>The statistics as the specification words them\<close>

text \<open>
  The specification's Z-score uses the population standard deviation (the squared
  deviations divided by \<open>n\<close>); the sample standard deviation divides by \<open>n - 1\<close>.
\<close>

definition arith_mean :: "real list \<Rightarrow> real" where
  "arith_mean x = sum_list x / real (length x)"


definition sample_std :: "real list \<Rightarrow> real" where
  "sample_std x = sqrt (sum_list (map (\<lambda>v. (v - arith_mean x)\<^sup>2) x) / real (length x - 1))"



section \<open>Reading and assigning columns\<close>

lemma getitem_setitem_same: "getitem (setitem c v d) c = Inr v"
  by (simp add: getitem_def setitem_def update_conv')

lemma getitem_setitem_other: "c' \<noteq> c \<Longrightarrow> getitem (setitem c v d) c' = getitem d c'"
  by (simp add: getitem_def setitem_def update_conv')

lemma index_len_setitem: "index_len (setitem c v d) = index_len d"
  by (simp add: setitem_def)

lemma columns_setitem:
  "columns (setitem c v d) = (if c \<in> set (columns d) then columns d else columns d @ [c])"
  by (simp add: columns_def setitem_def update_keys)

lemma set_columns_setitem: "set (columns (setitem c v d)) = insert c (set (columns d))"
  by (auto simp: columns_setitem)

lemma select_cols_setitem:
  "c \<notin> set cs \<Longrightarrow> select_cols (setitem c v d) cs = select_cols d cs"
  by (induction cs) (auto simp: getitem_setitem_other split: sum.splits)

lemma getitem_Inr_iff: "(\<exists>v. getitem d c = Inr v) \<longleftrightarrow> c \<in> set (columns d)"
proof (cases "map_of (cols d) c")
  case None
  moreover from None have "c \<notin> fst ` set (cols d)" by (simp add: map_of_eq_None_iff)
  ultimately show ?thesis by (simp add: getitem_def columns_def)
next
  case (Some v)
  then have "c \<in> fst ` set (cols d)" by (metis map_of_eq_None_iff option.distinct(1))
  with Some show ?thesis by (simp add: getitem_def columns_def)
qed

lemma select_cols_total:
  "set cs \<subseteq> set (columns d) \<Longrightarrow> \<exists>X. select_cols d cs = Inr X"
proof (induction cs)
  case Nil
  then show ?case by simp
next
  case (Cons c cs)
  then obtain X where "select_cols d cs = Inr X" by auto
  moreover from Cons.prems obtain v where "getitem d c = Inr v"
    using getitem_Inr_iff[of d c] by auto
  ultimately show ?case by simp
qed

lemma select_cols_Inr:
  "select_cols d cs = Inr X \<Longrightarrow>
     length X = length cs \<and> (\<forall>j<length cs. \<exists>v. getitem d (cs ! j) = Inr v \<and> X ! j = as_float v)"
proof (induction cs arbitrary: X)
  case Nil
  then show ?case by simp
next
  case (Cons c cs)
  then show ?case
    by (auto split: sum.splits simp: nth_Cons split: nat.splits)
qed

lemma key_cols_of_set: "set (key_cols_of d) = set candidate_cols \<inter> set (columns d)"
  by (auto simp: key_cols_of_def)

lemma key_cols_of_setitem:
  "c \<notin> set candidate_cols \<Longrightarrow> key_cols_of (setitem c v d) = key_cols_of d"
  by (auto simp: key_cols_of_def set_columns_setitem intro!: filter_cong)

lemma reg_inputs_setitem:
  "c \<notin> {''AT'', ''AP'', ''RH'', ''CDP''} \<Longrightarrow> reg_inputs (setitem c v d) = reg_inputs d"
  by (auto simp: reg_inputs_def set_columns_setitem)

lemma resolve_stage_Inr:
  "resolve_stage st = Inr st' \<longleftrightarrow>
     key_cols_of (df st) \<noteq> [] \<and> st' = st\<lparr>key_cols := key_cols_of (df st)\<rparr>"
  by (auto simp: resolve_stage_def Let_def)

lemma zscore_stage_Inr:
  "zscore_stage st = Inr st' \<longleftrightarrow>
     (\<exists>X. select_cols (df st) (key_cols st) = Inr X \<and>
          st' = st\<lparr>df := setitem ''z_flag''
                  (IntCol (z_flag_of (index_len (df st)) (map z_score_col X))) (df st)\<rparr>)"
  by (auto simp: zscore_stage_def z_scores_def split: sum.splits)

lemma iso_stage_Inr:
  "iso_stage env g st = Inr st' \<longleftrightarrow>
     (\<exists>X Xs m labels.
        select_cols (df st) (key_cols st) = Inr X \<and>
        scaler_fit_transform env X = Inr Xs \<and>
        iso_fit env iso g Xs = Inr m \<and>
        iso_predict env m X = Inr labels \<and>
        length labels = index_len (df st) \<and>
        st' = st\<lparr>df := setitem ''iso_flag''
                (IntCol (map (\<lambda>l. of_bool (l = - 1)) labels)) (df st)\<rparr>)"
  by (auto simp: iso_stage_def setitem_array_def split: sum.splits)

lemma residual_stage_Inr:
  "residual_stage env st = Inr st' \<longleftrightarrow>
     (\<exists>X y reg pred.
        2 \<le> length (reg_inputs (df st)) \<and> ''TEY'' \<in> set (columns (df st)) \<and>
        select_cols (df st) (reg_inputs (df st)) = Inr X \<and>
        getitem (df st) ''TEY'' = Inr y \<and>
        reg_fit env X (as_float y) = Inr reg \<and>
        reg_predict env reg X = Inr pred \<and>
        length pred = index_len (df st) \<and>
        st' = st\<lparr>df := setitem ''res_flag''
                  (IntCol (res_flag_of (fmul (Fin 3) (std (map2 (-) (as_float y) pred)))
                             (map2 (-) (as_float y) pred)))
                  (setitem ''residual'' (FloatCol (map2 (-) (as_float y) pred))
                     (setitem ''TEY_pred'' (FloatCol pred) (df st))),
                three_sigma := Some (fmul (Fin 3) (std (map2 (-) (as_float y) pred)))\<rparr>)"
  by (auto simp: residual_stage_def setitem_array_def Let_def getitem_setitem_same
        getitem_setitem_other split: sum.splits)

section \<open>What a finished run has computed\<close>

lemma get_int_setitem_same: "get_int (setitem c (IntCol xs) d) c = Inr xs"
  by (simp add: get_int_def getitem_setitem_same)

lemma get_int_setitem_other: "c' \<noteq> c \<Longrightarrow> get_int (setitem c v d) c' = get_int d c'"
  by (simp add: get_int_def getitem_setitem_other)

lemma combine_stage_Inr:
  "combine_stage st = Inr st' \<longleftrightarrow>
     (\<exists>z i r. get_int (df st) ''z_flag'' = Inr z \<and> get_int (df st) ''iso_flag'' = Inr i \<and>
        get_int (df st) ''res_flag'' = Inr r \<and>
        st' = st\<lparr>df := setitem ''anomaly'' (IntCol (map2 (OR) (map2 (OR) z i) r)) (df st)\<rparr>)"
  by (auto simp: combine_stage_def split: sum.splits)

lemma report_stage_Inr:
  "report_stage st = Inr st' \<longleftrightarrow>
     (\<exists>r. select_frame (df st) (report_cols (key_cols st)) = Inr r \<and> st' = st\<lparr>report := Some r\<rparr>)"
  by (auto simp: report_stage_def split: sum.splits)

lemma run_stages_Finished_Cons:
  "run_stages (f # fs) s = Finished st \<longleftrightarrow> (\<exists>s'. f s = Inr s' \<and> run_stages fs s' = Finished st)"
  by (auto split: sum.splits)

lemma key_cols_not_derived:
  "c \<in> set (key_cols_of d) \<Longrightarrow>
     c \<notin> {''z_flag'', ''iso_flag'', ''TEY_pred'', ''residual'', ''res_flag'', ''anomaly''}"
proof -
  assume "c \<in> set (key_cols_of d)"
  then have "c \<in> set candidate_cols" by (simp add: key_cols_of_set)
  then show ?thesis by (auto simp: candidate_cols_def)
qed

lemma reg_inputs_not_derived:
  "c \<in> set (reg_inputs d) \<Longrightarrow>
     c \<notin> {''z_flag'', ''iso_flag'', ''TEY_pred'', ''residual'', ''res_flag'', ''anomaly''}"
proof -
  assume "c \<in> set (reg_inputs d)"
  then have "c \<in> set [''AT'', ''AP'', ''RH'', ''CDP'']"
    unfolding reg_inputs_def set_filter by blast
  then show ?thesis by auto
qed

lemma pipeline_FinishedE:
  assumes "pipeline env g d = Finished st"
  obtains X Xs m labels Xr y reg pred zf isf res ts rf an rep where
    "key_cols_of d \<noteq> []"
    "select_cols d (key_cols_of d) = Inr X"
    "scaler_fit_transform env X = Inr Xs"
    "iso_fit env iso g Xs = Inr m"
    "iso_predict env m X = Inr labels"
    "length labels = index_len d"
    "2 \<le> length (reg_inputs d)"
    "''TEY'' \<in> set (columns d)"
    "select_cols d (reg_inputs d) = Inr Xr"
    "getitem d ''TEY'' = Inr y"
    "reg_fit env Xr (as_float y) = Inr reg"
    "reg_predict env reg Xr = Inr pred"
    "length pred = index_len d"
    "zf = z_flag_of (index_len d) (map z_score_col X)"
    "isf = map (\<lambda>l. of_bool (l = - 1)) labels"
    "res = map2 (-) (as_float y) pred"
    "ts = fmul (Fin 3) (std res)"
    "rf = res_flag_of ts res"
    "an = map2 (OR) (map2 (OR) zf isf) rf"
    "df st = setitem ''anomaly'' (IntCol an)
              (setitem ''res_flag'' (IntCol rf)
                (setitem ''residual'' (FloatCol res)
                  (setitem ''TEY_pred'' (FloatCol pred)
                    (setitem ''iso_flag'' (IntCol isf)
                      (setitem ''z_flag'' (IntCol zf) d)))))"
    "key_cols st = key_cols_of d"
    "three_sigma st = Some ts"
    "report st = Some rep"
    "select_frame (df st) (report_cols (key_cols_of d)) = Inr rep"
proof -
  from assms obtain s1 s2 s3 s4 s5 where
    r1: "resolve_stage (init_state d) = Inr s1" and
    r2: "zscore_stage s1 = Inr s2" and
    r3: "iso_stage env g s2 = Inr s3" and
    r4: "residual_stage env s3 = Inr s4" and
    r5: "combine_stage s4 = Inr s5" and
    r6: "report_stage s5 = Inr st"
    unfolding pipeline_def run_stages_Finished_Cons by auto
  from r1 have k: "key_cols_of d \<noteq> []" and s1: "s1 = (init_state d)\<lparr>key_cols := key_cols_of d\<rparr>"
    by (auto simp: resolve_stage_Inr init_state_def)
  from r2 s1 obtain X where X: "select_cols d (key_cols_of d) = Inr X"
    and s2: "s2 = s1\<lparr>df := setitem ''z_flag''
                  (IntCol (z_flag_of (index_len d) (map z_score_col X))) d\<rparr>"
    by (auto simp: zscore_stage_Inr init_state_def)
  define zf where "zf = z_flag_of (index_len d) (map z_score_col X)"
  have nz: "''z_flag'' \<notin> set (key_cols_of d)" "''iso_flag'' \<notin> set (key_cols_of d)"
    using key_cols_not_derived[of _ d] by auto
  have X2: "select_cols (df s2) (key_cols s2) = Inr X"
    using X nz by (simp add: s2 s1 init_state_def select_cols_setitem)
  from r3 X2 obtain Xs m labels where
    i1: "scaler_fit_transform env X = Inr Xs" and
    i2: "iso_fit env iso g Xs = Inr m" and
    i3: "iso_predict env m X = Inr labels" and
    i4: "length labels = index_len d" and
    s3: "s3 = s2\<lparr>df := setitem ''iso_flag''
                (IntCol (map (\<lambda>l. of_bool (l = - 1)) labels)) (df s2)\<rparr>"
    by (auto simp: iso_stage_Inr s2 s1 init_state_def index_len_setitem)
  define isf :: "int list" where "isf = map (\<lambda>l. of_bool (l = - 1)) labels"
  have d3: "df s3 = setitem ''iso_flag'' (IntCol isf) (setitem ''z_flag'' (IntCol zf) d)"
    by (simp add: s3 s2 s1 init_state_def zf_def isf_def)
  have ri: "reg_inputs (df s3) = reg_inputs d"
    by (simp add: d3 reg_inputs_setitem)
  have nr: "''z_flag'' \<notin> set (reg_inputs d)" "''iso_flag'' \<notin> set (reg_inputs d)"
    using reg_inputs_not_derived[of _ d] by auto
  have sel3: "select_cols (df s3) (reg_inputs d) = select_cols d (reg_inputs d)"
    using nr by (simp add: d3 select_cols_setitem)
  have tey3: "getitem (df s3) ''TEY'' = getitem d ''TEY''"
    by (simp add: d3 getitem_setitem_other)
  have col3: "''TEY'' \<in> set (columns (df s3)) \<longleftrightarrow> ''TEY'' \<in> set (columns d)"
    by (simp add: d3 set_columns_setitem)
  from r4 obtain Xr y reg pred where
    g1: "2 \<le> length (reg_inputs d)" and g2: "''TEY'' \<in> set (columns d)" and
    g3: "select_cols d (reg_inputs d) = Inr Xr" and
    g4: "getitem d ''TEY'' = Inr y" and
    g5: "reg_fit env Xr (as_float y) = Inr reg" and
    g6: "reg_predict env reg Xr = Inr pred" and
    g7: "length pred = index_len d" and
    s4: "s4 = s3\<lparr>df := setitem ''res_flag''
                  (IntCol (res_flag_of (fmul (Fin 3) (std (map2 (-) (as_float y) pred)))
                             (map2 (-) (as_float y) pred)))
                  (setitem ''residual'' (FloatCol (map2 (-) (as_float y) pred))
                     (setitem ''TEY_pred'' (FloatCol pred) (df s3))),
                three_sigma := Some (fmul (Fin 3) (std (map2 (-) (as_float y) pred)))\<rparr>"
    unfolding residual_stage_Inr ri sel3 tey3 col3
    by (auto simp: d3 index_len_setitem)
  define res where "res = map2 (-) (as_float y) pred"
  define ts where "ts = fmul (Fin 3) (std res)"
  define rf where "rf = res_flag_of ts res"
  have d4: "df s4 = setitem ''res_flag'' (IntCol rf)
                (setitem ''residual'' (FloatCol res)
                  (setitem ''TEY_pred'' (FloatCol pred)
                    (setitem ''iso_flag'' (IntCol isf)
                      (setitem ''z_flag'' (IntCol zf) d))))"
    by (simp add: s4 d3 res_def ts_def rf_def)
  have gz: "get_int (df s4) ''z_flag'' = Inr zf"
    by (simp add: d4 get_int_setitem_other get_int_setitem_same)
  have gi: "get_int (df s4) ''iso_flag'' = Inr isf"
    by (simp add: d4 get_int_setitem_other get_int_setitem_same)
  have gr: "get_int (df s4) ''res_flag'' = Inr rf"
    by (simp add: d4 get_int_setitem_other get_int_setitem_same)
  define an where "an = map2 (OR) (map2 (OR) zf isf) rf"
  from r5 have s5: "s5 = s4\<lparr>df := setitem ''anomaly'' (IntCol an) (df s4)\<rparr>"
    by (simp add: combine_stage_Inr gz gi gr an_def)
  from r6 obtain rep where
    rp: "select_frame (df s5) (report_cols (key_cols s5)) = Inr rep" and
    st: "st = s5\<lparr>report := Some rep\<rparr>"
    by (auto simp: report_stage_Inr)
  have kst: "key_cols st = key_cols_of d"
    by (simp add: st s5 s4 s3 s2 s1)
  have dst: "df st = setitem ''anomaly'' (IntCol an) (df s4)"
    by (simp add: st s5)
  have tst: "three_sigma st = Some ts"
    by (simp add: st s5 s4 ts_def res_def)
  have rst: "report st = Some rep"
    by (simp add: st)
  have rp': "select_frame (df st) (report_cols (key_cols_of d)) = Inr rep"
    using rp by (simp add: st s5 s4 s3 s2 s1)
  show ?thesis
    by (rule that[OF k X i1 i2 i3 i4 g1 g2 g3 g4 g5 g6 g7 zf_def isf_def res_def ts_def
          rf_def an_def dst[unfolded d4] kst tst rst rp'])
qed

section \<open>Running the pipeline on the concrete frames\<close>

lemma three_sqrt_less: "0 \<le> v \<Longrightarrow> (3 * sqrt v < \<bar>a\<bar>) = (9 * v < a\<^sup>2)"
proof -
  assume v: "0 \<le> v"
  have "3 * sqrt v = sqrt (9 * v)"
    by (simp add: real_sqrt_mult)
  moreover have "\<bar>a\<bar> = sqrt (a\<^sup>2)" by simp
  ultimately show ?thesis
    by (metis real_sqrt_less_iff)
qed

lemma three_sqrt_less_pos: "0 \<le> v \<Longrightarrow> 0 \<le> a \<Longrightarrow> (3 * sqrt v < a) = (9 * v < a\<^sup>2)"
  using three_sqrt_less[of v a] by simp

lemma exceeds_Fin: "exceeds (Fin r) = (3 < \<bar>r\<bar>)"
  by (simp add: exceeds_def z_thresh_def)

lemma exceeds_div_sqrt: "0 < v \<Longrightarrow> exceeds (Fin (a / sqrt v)) = (9 * v < a\<^sup>2)"
proof -
  assume v: "0 < v"
  then have s: "0 < sqrt v" by simp
  have "exceeds (Fin (a / sqrt v)) = (3 < \<bar>a\<bar> / sqrt v)"
    using s by (simp add: exceeds_Fin)
  also have "\<dots> = (3 * sqrt v < \<bar>a\<bar>)"
    using s by (simp add: pos_less_divide_eq)
  also have "\<dots> = (9 * v < a\<^sup>2)"
    using v by (simp add: three_sqrt_less)
  finally show ?thesis .
qed

lemma exceeds_minus: "exceeds (Fin (- r)) = exceeds (Fin r)"
  by (simp add: exceeds_Fin)

lemma exceeds_NaN: "exceeds NaN = False"
  by (simp add: exceeds_def)

lemmas eval_defs =
  pipeline_def init_state_def resolve_stage_def key_cols_of_def columns_def candidate_cols_def
  zscore_stage_def z_scores_def getitem_def z_flag_of_def any_axis1_def upt_rec
  z_score_col_def std_def mean_def exceeds_div_sqrt exceeds_minus exceeds_NaN setitem_def
  iso_stage_def stub_env_def stub_scaler_def standardize_col_def Let_def range_fit_def
  iso_def range_predict_def setitem_array_def
  residual_stage_def reg_inputs_def mean_fit_def mean_predict_def res_flag_of_def
  three_sqrt_less_pos combine_stage_def get_int_def report_stage_def report_cols_def


lemma ex_df_run: "pipeline stub_env 0 ex_df = Finished ex_final"
  by (simp add: ex_df_def ex_final_def eval_defs)

lemma ex_const_run: "pipeline stub_env 0 ex_const = Finished ex_const_final"
  by (simp add: ex_const_def ex_const_final_def eval_defs)

lemma ex_one_run: "pipeline stub_env 0 ex_one = Finished ex_one_final"
  by (simp add: ex_one_def ex_one_final_def eval_defs)

lemma ex_no_target_run:
  "pipeline stub_env 0 ex_no_target = Raised (ValueError residual_msg) ex_no_target_raised"
  by (simp add: ex_no_target_def ex_no_target_raised_def eval_defs)

lemma ex_no_sensor_run:
  "pipeline stub_env 0 ex_no_sensor =
     Raised (ValueError (no_sensor_msg [''AT'', ''AP''])) (init_state ex_no_sensor)"
  by (simp add: ex_no_sensor_def eval_defs)

lemma wf_ex_df: "wf_df ex_df"
  by (simp add: wf_df_def ex_df_def columns_def)

lemma wf_ex_const: "wf_df ex_const"
  by (simp add: wf_df_def ex_const_def columns_def)

lemma wf_ex_one: "wf_df ex_one"
  by (simp add: wf_df_def ex_one_def columns_def)

section \<open>The combined flag\<close>

lemma wf_getitem_len:
  assumes "wf_df d" "getitem d c = Inr v"
  shows "length (as_float v) = index_len d"
proof -
  from assms(2) have "map_of (cols d) c = Some v"
    by (auto simp: getitem_def split: option.splits)
  then have "(c, v) \<in> set (cols d)" by (rule map_of_SomeD)
  with assms(1) have "col_len v = index_len d"
    by (auto simp: wf_df_def list_all_iff)
  then show ?thesis by (cases v) auto
qed

lemma length_z_flag_of: "length (z_flag_of n zs) = n"
  by (simp add: z_flag_of_def any_axis1_def)

lemma length_res_flag_of: "length (res_flag_of ts r) = length r"
  by (simp add: res_flag_of_def)



lemma res_flag_of_nth:
  "k < length r \<Longrightarrow> res_flag_of ts r ! k = of_bool (fgt (fabs (Fin (r ! k))) ts)"
  by (simp add: res_flag_of_def)



section \<open>The residual flag\<close>

lemma std_sample:
  "std x = (if length x \<le> 1 then NaN else Fin (sample_std x))"
  by (simp add: std_def sample_std_def arith_mean_def)

lemma fgt_three_sigma:
  "fgt (fabs (Fin r)) (fmul (Fin 3) (std x)) \<longleftrightarrow> 2 \<le> length x \<and> 3 * sample_std x < \<bar>r\<bar>"
  by (simp add: std_sample)

text \<open>
  Claim C2. In a finished run the regressor is fitted once, on the predictor columns and
  the \<open>TEY\<close> column of the whole frame, and \<open>TEY_pred\<close> is its prediction on the same
  rows. For every record \<open>residual = TEY - TEY_pred\<close>. One number, three times the
  standard deviation of all residuals (the \<open>n - 1\<close> form; NaN for a single record), is
  kept as \<open>three_sigma\<close>, and \<open>res_flag\<close> is 1 exactly when \<open>|residual|\<close> is greater than
  that number (a comparison with NaN being false).
\<close>

theorem residual_flag_rule:
  assumes "wf_df d" and "pipeline env g d = Finished st"
  shows "\<exists>X y reg pred res rf.
           select_cols d (reg_inputs d) = Inr X \<and> getitem d ''TEY'' = Inr y \<and>
           reg_fit env X (as_float y) = Inr reg \<and> reg_predict env reg X = Inr pred \<and>
           getitem (df st) ''TEY'' = Inr y \<and>
           getitem (df st) ''TEY_pred'' = Inr (FloatCol pred) \<and>
           getitem (df st) ''residual'' = Inr (FloatCol res) \<and>
           get_int (df st) ''res_flag'' = Inr rf \<and>
           length (as_float y) = index_len d \<and> length pred = index_len d \<and>
           length res = index_len d \<and> length rf = index_len d \<and>
           three_sigma st = Some (fmul (Fin 3) (std res)) \<and>
           std res = (if index_len d \<le> 1 then NaN else Fin (sample_std res)) \<and>
           (\<forall>k<index_len d.
              res ! k = as_float y ! k - pred ! k \<and>
              (rf ! k = 0 \<or> rf ! k = 1) \<and>
              (rf ! k = 1 \<longleftrightarrow> fgt (fabs (Fin (res ! k))) (fmul (Fin 3) (std res))) \<and>
              (rf ! k = 1 \<longleftrightarrow> 2 \<le> index_len d \<and> 3 * sample_std res < \<bar>res ! k\<bar>))"
proof -
  from assms(2) obtain Xr y reg pred res ts rf and zf isf an :: "int list" where
    f: "select_cols d (reg_inputs d) = Inr Xr" "getitem d ''TEY'' = Inr y"
       "reg_fit env Xr (as_float y) = Inr reg" "reg_predict env reg Xr = Inr pred"
       "length pred = index_len d"
       "res = map2 (-) (as_float y) pred"
       "ts = fmul (Fin 3) (std res)"
       "rf = res_flag_of ts res"
       "df st = setitem ''anomaly'' (IntCol an)
              (setitem ''res_flag'' (IntCol rf)
                (setitem ''residual'' (FloatCol res)
                  (setitem ''TEY_pred'' (FloatCol pred)
                    (setitem ''iso_flag'' (IntCol isf)
                      (setitem ''z_flag'' (IntCol zf) d)))))"
       "three_sigma st = Some ts"
    by (elim pipeline_FinishedE) blast
  let ?n = "index_len d"
  have ly: "length (as_float y) = ?n" using assms(1) f(2) by (rule wf_getitem_len)
  have lres: "length res = ?n" by (simp add: f(6) ly f(5))
  have lr: "length rf = ?n" by (simp add: f(8) length_res_flag_of lres)
  have g1: "getitem (df st) ''TEY'' = Inr y"
    by (simp add: f(9) getitem_setitem_other f(2))
  have g2: "getitem (df st) ''TEY_pred'' = Inr (FloatCol pred)"
    by (simp add: f(9) getitem_setitem_other getitem_setitem_same)
  have g3: "getitem (df st) ''residual'' = Inr (FloatCol res)"
    by (simp add: f(9) getitem_setitem_other getitem_setitem_same)
  have g4: "get_int (df st) ''res_flag'' = Inr rf"
    by (simp add: f(9) get_int_setitem_other get_int_setitem_same)
  have t: "three_sigma st = Some (fmul (Fin 3) (std res))"
    by (simp add: f(10) f(7))
  have s: "std res = (if ?n \<le> 1 then NaN else Fin (sample_std res))"
    by (simp add: std_sample lres)
  have per: "res ! k = as_float y ! k - pred ! k \<and> (rf ! k = 0 \<or> rf ! k = 1) \<and>
             (rf ! k = 1 \<longleftrightarrow> fgt (fabs (Fin (res ! k))) (fmul (Fin 3) (std res))) \<and>
             (rf ! k = 1 \<longleftrightarrow> 2 \<le> ?n \<and> 3 * sample_std res < \<bar>res ! k\<bar>)" if k: "k < ?n" for k
  proof -
    have a: "res ! k = as_float y ! k - pred ! k"
      using k ly f(5) by (simp add: f(6))
    have b: "rf ! k = of_bool (fgt (fabs (Fin (res ! k))) (fmul (Fin 3) (std res)))"
      using k lres by (simp add: f(8) f(7) res_flag_of_nth)
    have c: "fgt (fabs (Fin (res ! k))) (fmul (Fin 3) (std res)) \<longleftrightarrow>
               2 \<le> ?n \<and> 3 * sample_std res < \<bar>res ! k\<bar>"
      unfolding fgt_three_sigma lres ..
    show ?thesis
      unfolding b using a c by simp
  qed
  show ?thesis
    using f(1-4) g1 g2 g3 g4 ly f(5) lres lr t s per by blast
qed

theorem residual_flag_rule_witness:
  "wf_df ex_df \<and> pipeline stub_env 0 ex_df = Finished ex_final \<and>
   (\<exists>X y reg pred res rf.
      select_cols ex_df (reg_inputs ex_df) = Inr X \<and> getitem ex_df ''TEY'' = Inr y \<and>
      reg_fit stub_env X (as_float y) = Inr reg \<and> reg_predict stub_env reg X = Inr pred \<and>
      getitem (df ex_final) ''TEY'' = Inr y \<and>
      getitem (df ex_final) ''TEY_pred'' = Inr (FloatCol pred) \<and>
      getitem (df ex_final) ''residual'' = Inr (FloatCol res) \<and>
      get_int (df ex_final) ''res_flag'' = Inr rf \<and>
      length (as_float y) = index_len ex_df \<and> length pred = index_len ex_df \<and>
      length res = index_len ex_df \<and> length rf = index_len ex_df \<and>
      three_sigma ex_final = Some (fmul (Fin 3) (std res)) \<and>
      std res = (if index_len ex_df \<le> 1 then NaN else Fin (sample_std res)) \<and>
      (\<forall>k<index_len ex_df.
         res ! k = as_float y ! k - pred ! k \<and>
         (rf ! k = 0 \<or> rf ! k = 1) \<and>
         (rf ! k = 1 \<longleftrightarrow> fgt (fabs (Fin (res ! k))) (fmul (Fin 3) (std res))) \<and>
         (rf ! k = 1 \<longleftrightarrow> 2 \<le> index_len ex_df \<and> 3 * sample_std res < \<bar>res ! k\<bar>)))"
  using residual_flag_rule [OF wf_ex_df ex_df_run] wf_ex_df ex_df_run by simp

section \<open>The frame of a run\<close>





section \<open>A perfect fit\<close>

lemma sample_std_zeros: "\<forall>v\<in>set x. v = 0 \<Longrightarrow> sample_std x = 0"
proof -
  assume z: "\<forall>v\<in>set x. v = 0"
  then have "x = replicate (length x) 0"
    by (simp add: replicate_length_same)
  then have s: "sum_list x = 0"
    by (metis sum_list_replicate mult_zero_right)
  have "map (\<lambda>v. (v - arith_mean x)\<^sup>2) x = map (\<lambda>v. 0) x"
    using z by (intro map_cong) (simp_all add: arith_mean_def s)
  then have "sum_list (map (\<lambda>v. (v - arith_mean x)\<^sup>2) x) = sum_list (map (\<lambda>v. 0) x)"
    by (rule arg_cong)
  then have "sum_list (map (\<lambda>v. (v - arith_mean x)\<^sup>2) x) = 0"
    by simp
  then show ?thesis
    unfolding sample_std_def by simp
qed

text \<open>
  Claim C10, as the code has it. When every residual of a finished run is zero, no record
  receives \<open>res_flag = 1\<close>. The standard deviation of the residuals is 0 when the frame
  has at least two records, and NaN when it has fewer (the \<open>n - 1\<close> form has no value
  there); in both cases the strict comparison is false for every record.
\<close>

theorem perfect_fit_flags_nothing:
  assumes "wf_df d" and "pipeline env g d = Finished st"
    and "getitem (df st) ''residual'' = Inr (FloatCol res)"
    and "\<forall>v\<in>set res. v = 0"
  shows "get_int (df st) ''res_flag'' = Inr (replicate (index_len d) 0) \<and>
         std res = (if index_len d \<le> 1 then NaN else Fin 0) \<and>
         three_sigma st = Some (if index_len d \<le> 1 then NaN else Fin 0)"
proof -
  from assms(2) obtain y pred ts rf and zf isf an :: "int list" where
    f: "getitem d ''TEY'' = Inr y" "length pred = index_len d"
       "ts = fmul (Fin 3) (std (map2 (-) (as_float y) pred))"
       "rf = res_flag_of ts (map2 (-) (as_float y) pred)"
       "df st = setitem ''anomaly'' (IntCol an)
              (setitem ''res_flag'' (IntCol rf)
                (setitem ''residual'' (FloatCol (map2 (-) (as_float y) pred))
                  (setitem ''TEY_pred'' (FloatCol pred)
                    (setitem ''iso_flag'' (IntCol isf)
                      (setitem ''z_flag'' (IntCol zf) d)))))"
       "three_sigma st = Some ts"
    by (elim pipeline_FinishedE) blast
  let ?n = "index_len d"
  have "getitem (df st) ''residual'' = Inr (FloatCol (map2 (-) (as_float y) pred))"
    by (simp add: f(5) getitem_setitem_other getitem_setitem_same)
  with assms(3) have res: "res = map2 (-) (as_float y) pred" by simp
  have ly: "length (as_float y) = ?n" using assms(1) f(1) by (rule wf_getitem_len)
  have lres: "length res = ?n" by (simp add: res ly f(2))
  have z: "sample_std res = 0" using assms(4) by (rule sample_std_zeros)
  have s: "std res = (if ?n \<le> 1 then NaN else Fin 0)"
    by (simp add: std_sample lres z)
  have t: "ts = (if ?n \<le> 1 then NaN else Fin 0)"
    by (simp add: f(3) res[symmetric] s)
  have "rf ! k = 0" if "k < length rf" for k
  proof -
    from that have k: "k < length res" by (simp add: f(4) res length_res_flag_of)
    then have "res ! k = 0" using assms(4) by simp
    with k show ?thesis
      by (simp add: f(4) res[symmetric] res_flag_of_nth t)
  qed
  moreover have "length rf = ?n"
    by (simp add: f(4) res[symmetric] length_res_flag_of lres)
  ultimately have "rf = replicate ?n 0"
    by (simp add: list_eq_iff_nth_eq)
  moreover have "get_int (df st) ''res_flag'' = Inr rf"
    by (simp add: f(5) get_int_setitem_other get_int_setitem_same)
  ultimately show ?thesis
    using s t f(6) by simp
qed

theorem perfect_fit_flags_nothing_witness:
  "wf_df ex_const \<and> pipeline stub_env 0 ex_const = Finished ex_const_final \<and>
   getitem (df ex_const_final) ''residual'' = Inr (FloatCol [0, 0]) \<and>
   list_all (\<lambda>v. v = 0) [0, 0 :: real] \<and>
   get_int (df ex_const_final) ''res_flag'' = Inr (replicate (index_len ex_const) 0) \<and>
   std [0, 0] = (if index_len ex_const \<le> 1 then NaN else Fin 0) \<and>
   three_sigma ex_const_final = Some (if index_len ex_const \<le> 1 then NaN else Fin 0)"
proof -
  have r: "getitem (df ex_const_final) ''residual'' = Inr (FloatCol [0, 0])"
    by (simp add: ex_const_final_def getitem_def)
  have z: "\<forall>v\<in>set [0, 0 :: real]. v = 0" by simp
  show ?thesis
    using perfect_fit_flags_nothing [OF wf_ex_const ex_const_run r z]
      wf_ex_const ex_const_run r z
    by simp
qed

text \<open>
  Claim C10 as stated (a perfect fit gives \<open>sigma_res = 0\<close>) fails on a frame with a
  single record: the residual is zero (the stand-in regressor, like a least-squares fit,
  reproduces the one target value), yet the standard deviation of the residuals is NaN,
  not 0.
\<close>

theorem single_record_sigma_is_nan:
  "pipeline stub_env 0 ex_one = Finished ex_one_final \<and>
   getitem (df ex_one_final) ''residual'' = Inr (FloatCol [0]) \<and>
   std [0] = NaN \<and> std [0] \<noteq> Fin 0 \<and>
   three_sigma ex_one_final = Some (fmul (Fin 3) (std [0])) \<and>
   three_sigma ex_one_final \<noteq> Some (Fin 0)"
  using ex_one_run by (simp add: ex_one_final_def getitem_def std_def)

section \<open>The column choice\<close>





section \<open>The residual preconditions\<close>

lemma run_stages_append:
  "run_stages (fs @ gs) s =
     (case run_stages fs s of Finished s' \<Rightarrow> run_stages gs s' | Raised e s' \<Rightarrow> Raised e s')"
  by (induction fs arbitrary: s) (auto split: sum.splits)

lemma pipeline_split:
  "pipeline env g d =
     (case run_stages [resolve_stage, zscore_stage, iso_stage env g] (init_state d) of
        Finished s \<Rightarrow> run_stages [residual_stage env, combine_stage, report_stage] s
      | Raised e s \<Rightarrow> Raised e s)"
  unfolding pipeline_def
  using run_stages_append[of "[resolve_stage, zscore_stage, iso_stage env g]"
          "[residual_stage env, combine_stage, report_stage]" "init_state d"]
  by simp

lemma key_cols_selectable: "\<exists>X. select_cols d (key_cols_of d) = Inr X"
  by (rule select_cols_total) (simp add: key_cols_of_set)

text \<open>The first three stages: how they end, and in which state.\<close>

lemma detectors_prefix:
  obtains
    (no_sensor) "key_cols_of d = []"
      "run_stages [resolve_stage, zscore_stage, iso_stage env g] (init_state d) =
         Raised (ValueError (no_sensor_msg (columns d))) (init_state d)"
  | (iso_raised) e X where "key_cols_of d \<noteq> []" "select_cols d (key_cols_of d) = Inr X"
      "run_stages [resolve_stage, zscore_stage, iso_stage env g] (init_state d) =
         Raised e \<lparr>df = setitem ''z_flag'' (IntCol (z_flag_of (index_len d) (map z_score_col X))) d,
                   key_cols = key_cols_of d, three_sigma = None, report = None\<rparr>"
  | (went_through) X isf where "key_cols_of d \<noteq> []" "select_cols d (key_cols_of d) = Inr X"
      "length isf = index_len d"
      "run_stages [resolve_stage, zscore_stage, iso_stage env g] (init_state d) =
         Finished \<lparr>df = setitem ''iso_flag'' (IntCol isf)
                          (setitem ''z_flag'' (IntCol (z_flag_of (index_len d) (map z_score_col X))) d),
                   key_cols = key_cols_of d, three_sigma = None, report = None\<rparr>"
proof (cases "key_cols_of d = []")
  case True
  then show ?thesis
    by (intro no_sensor) (simp_all add: resolve_stage_def init_state_def)
next
  case False
  obtain X where X: "select_cols d (key_cols_of d) = Inr X"
    using key_cols_selectable by blast
  let ?s1 = "(init_state d)\<lparr>key_cols := key_cols_of d\<rparr>"
  let ?s2 = "\<lparr>df = setitem ''z_flag'' (IntCol (z_flag_of (index_len d) (map z_score_col X))) d,
              key_cols = key_cols_of d, three_sigma = None, report = None\<rparr>"
  have r1: "resolve_stage (init_state d) = Inr ?s1"
    using False by (simp add: resolve_stage_def init_state_def)
  have r2: "zscore_stage ?s1 = Inr ?s2"
    using X by (simp add: zscore_stage_Inr init_state_def)
  show ?thesis
  proof (cases "iso_stage env g ?s2")
    case (Inl e)
    with r1 r2 have "run_stages [resolve_stage, zscore_stage, iso_stage env g] (init_state d) =
        Raised e ?s2" by simp
    with False X show ?thesis by (rule iso_raised)
  next
    case (Inr s3)
    then obtain labels :: "int list" where l: "length labels = index_len d"
      and s3: "s3 = ?s2\<lparr>df := setitem ''iso_flag''
                 (IntCol (map (\<lambda>l. of_bool (l = - 1)) labels)) (df ?s2)\<rparr>"
      by (auto simp: iso_stage_Inr index_len_setitem)
    from r1 r2 Inr have "run_stages [resolve_stage, zscore_stage, iso_stage env g] (init_state d) =
        Finished s3" by simp
    then show ?thesis
      using False X l by (intro went_through[of X "map (\<lambda>l. of_bool (l = - 1)) labels"]) (simp_all add: s3)
  qed
qed

lemma residual_stage_unmet:
  "length (reg_inputs (df s)) < 2 \<or> ''TEY'' \<notin> set (columns (df s)) \<Longrightarrow>
     residual_stage env s = Inl (ValueError residual_msg)"
  by (auto simp: residual_stage_def)

text \<open>
  Claim C5, as the code has it. When the frame lacks \<open>TEY\<close> or has fewer than two of
  \<open>AT, AP, RH, CDP\<close>, every run ends in an exception, with no report written and no
  residual threshold computed; the columns other than \<open>z_flag\<close> and \<open>iso_flag\<close> read as
  in the input. The check of the residual preconditions is the first statement of the
  residual section: when the column choice, the Z-score detector and the density detector
  have gone through, the run ends there with the ValueError of line 79, in the state those
  two detectors left (their flag columns assigned).
\<close>

theorem residual_precondition_raises:
  assumes "length (reg_inputs d) < 2 \<or> ''TEY'' \<notin> set (columns d)"
  shows "(\<exists>e s. pipeline env g d = Raised e s \<and> report s = None \<and> three_sigma s = None \<and>
            (\<forall>c. c \<noteq> ''z_flag'' \<and> c \<noteq> ''iso_flag'' \<longrightarrow> getitem (df s) c = getitem d c)) \<and>
         (\<forall>s3. run_stages [resolve_stage, zscore_stage, iso_stage env g] (init_state d) = Finished s3
            \<longrightarrow> pipeline env g d = Raised (ValueError residual_msg) s3 \<and>
                (\<exists>zf isf. df s3 = setitem ''iso_flag'' (IntCol isf) (setitem ''z_flag'' (IntCol zf) d) \<and>
                   get_int (df s3) ''z_flag'' = Inr zf \<and> get_int (df s3) ''iso_flag'' = Inr isf \<and>
                   length zf = index_len d \<and> length isf = index_len d))"
proof (cases rule: detectors_prefix[of d env g])
  case no_sensor
  show ?thesis
    unfolding pipeline_split no_sensor(2) by (simp add: init_state_def)
next
  case (iso_raised e X)
  show ?thesis
    unfolding pipeline_split iso_raised(3) by (simp add: getitem_setitem_other)
next
  case (went_through X isf)
  let ?zf = "z_flag_of (index_len d) (map z_score_col X)"
  let ?s3 = "\<lparr>df = setitem ''iso_flag'' (IntCol isf) (setitem ''z_flag'' (IntCol ?zf) d),
              key_cols = key_cols_of d, three_sigma = None, report = None\<rparr>"
  have "length (reg_inputs (df ?s3)) < 2 \<or> ''TEY'' \<notin> set (columns (df ?s3))"
    using assms by (simp add: reg_inputs_setitem set_columns_setitem)
  then have "residual_stage env ?s3 = Inl (ValueError residual_msg)"
    by (rule residual_stage_unmet)
  then have p: "pipeline env g d = Raised (ValueError residual_msg) ?s3"
    unfolding pipeline_split went_through(4) by simp
  have a: "get_int (df ?s3) ''z_flag'' = Inr ?zf" "get_int (df ?s3) ''iso_flag'' = Inr isf"
    by (simp_all add: get_int_setitem_other get_int_setitem_same)
  show ?thesis
    unfolding p went_through(4) using a went_through(3)
    by (simp add: getitem_setitem_other length_z_flag_of)
qed

theorem residual_precondition_raises_witness:
  "(length (reg_inputs ex_no_target) < 2 \<or> ''TEY'' \<notin> set (columns ex_no_target)) \<and>
   run_stages [resolve_stage, zscore_stage, iso_stage stub_env 0] (init_state ex_no_target) =
     Finished ex_no_target_raised \<and>
   pipeline stub_env 0 ex_no_target = Raised (ValueError residual_msg) ex_no_target_raised \<and>
   (\<exists>zf isf. df ex_no_target_raised =
        setitem ''iso_flag'' (IntCol isf) (setitem ''z_flag'' (IntCol zf) ex_no_target) \<and>
      get_int (df ex_no_target_raised) ''z_flag'' = Inr zf \<and>
      get_int (df ex_no_target_raised) ''iso_flag'' = Inr isf \<and>
      length zf = index_len ex_no_target \<and> length isf = index_len ex_no_target)"
proof -
  have h: "length (reg_inputs ex_no_target) < 2 \<or> ''TEY'' \<notin> set (columns ex_no_target)"
    by (simp add: reg_inputs_def columns_def ex_no_target_def)
  have p: "run_stages [resolve_stage, zscore_stage, iso_stage stub_env 0] (init_state ex_no_target) =
     Finished ex_no_target_raised"
    by (simp add: ex_no_target_def ex_no_target_raised_def eval_defs)
  show ?thesis
    using residual_precondition_raises [OF h, of stub_env 0] h p by simp
qed

text \<open>
  Claim C5 as stated (the error aborts the run before any detector executes) fails on a
  frame with the sensor \<open>TIT\<close> but without \<open>TEY\<close>: when the ValueError of line 79 is
  raised, the Z-score and the density detector have already run and assigned their flags.
\<close>

theorem detectors_run_before_residual_check:
  "pipeline stub_env 0 ex_no_target = Raised (ValueError residual_msg) ex_no_target_raised \<and>
   getitem ex_no_target ''z_flag'' = Inl (KeyError ''z_flag'') \<and>
   getitem ex_no_target ''iso_flag'' = Inl (KeyError ''iso_flag'') \<and>
   getitem (df ex_no_target_raised) ''z_flag'' = Inr (IntCol [0, 0]) \<and>
   getitem (df ex_no_target_raised) ''iso_flag'' = Inr (IntCol [1, 1])"
  using ex_no_target_run
  by (simp add: ex_no_target_def ex_no_target_raised_def getitem_def)

section \<open>The Z-score flag\<close>










section \<open>The Z-score rule\<close>






section \<open>The population deviation on a concrete frame\<close>














section \<open>A constant sensor column\<close>





section \<open>The Isolation-Forest flag\<close>






text \<open>
  In a finished run the labels behind \<open>iso_flag\<close> are those of \<open>predict\<close> on the selected
  columns as they stand in the frame; the scaled matrix is used for the fit only.
\<close>

lemma iso_flag_labels:
  assumes "pipeline env g d = Finished st"
  shows "\<exists>X Xs m labels.
           select_cols d (key_cols_of d) = Inr X \<and> scaler_fit_transform env X = Inr Xs \<and>
           iso_fit env iso g Xs = Inr m \<and> iso_predict env m X = Inr labels \<and>
           get_int (df st) ''iso_flag'' = Inr (map (\<lambda>l. of_bool (l = - 1)) labels)"
proof -
  from assms obtain X Xs m pred res rf and labels zf isf an :: "int list" where
    f: "select_cols d (key_cols_of d) = Inr X" "scaler_fit_transform env X = Inr Xs"
       "iso_fit env iso g Xs = Inr m" "iso_predict env m X = Inr labels"
       "isf = map (\<lambda>l. of_bool (l = - 1)) labels"
       "df st = setitem ''anomaly'' (IntCol an)
              (setitem ''res_flag'' (IntCol rf)
                (setitem ''residual'' (FloatCol res)
                  (setitem ''TEY_pred'' (FloatCol pred)
                    (setitem ''iso_flag'' (IntCol isf)
                      (setitem ''z_flag'' (IntCol zf) d)))))"
    by (elim pipeline_FinishedE) blast
  have "get_int (df st) ''iso_flag'' = Inr isf"
    by (simp add: f(6) get_int_setitem_other get_int_setitem_same)
  with f show ?thesis by blast
qed


end
